theory Spec2Isabelle
  imports Main
begin

section \<open>Offline task list with a sync queue: the data model\<close>

text \<open>
  The development embeds \<^verbatim>\<open>src/services/taskService.ts\<close> and
  \<^verbatim>\<open>src/services/syncService.ts\<close>. Conventions:
  \<^item> a \<^verbatim>\<open>Date\<close> is its \<^verbatim>\<open>getTime()\<close> value, an integer number of
    milliseconds (every \<^verbatim>\<open>Date\<close> is taken to be a valid one, so
    \<^verbatim>\<open>new Date(d).getTime()\<close> and the ISO-string round trip through the store
    are the identity);
  \<^item> an optional or nullable field is an \<open>option\<close> (\<open>None\<close> for
    \<^verbatim>\<open>undefined\<close> and \<^verbatim>\<open>null\<close>);
  \<^item> a function that reads \<^verbatim>\<open>new Date()\<close> once takes the reading as \<open>now\<close>;
    a function that reads it several times takes \<open>clock\<close>, whose value at \<open>k\<close> is
    the \<open>k\<close>-th reading made during the call. No order between readings is assumed;
  \<^item> the answers of the remote service (liveness probe, batch reply) and the value
    returned by \<^verbatim>\<open>uuidv4()\<close> are arguments.
\<close>

type_synonym date = int

datatype sync_status = Pending | Synced | Error

datatype operation = Create | Update | Delete

text \<open>The \<^verbatim>\<open>Task\<close> object, with the fields \<^verbatim>\<open>rowToTask\<close> builds.\<close>

record Task =
  tid :: string
  title :: string
  description :: "string option"
  completed :: bool
  is_deleted :: bool
  created_at :: date
  updated_at :: date
  sync_status :: sync_status
  server_id :: "string option"

text \<open>\<^verbatim>\<open>Partial<Task>\<close>: every key is absent (\<open>None\<close>) or carries a value.\<close>

record partial_task =
  p_id :: "string option"
  p_title :: "string option"
  p_description :: "string option"
  p_completed :: "bool option"
  p_is_deleted :: "bool option"
  p_created_at :: "date option"
  p_updated_at :: "date option"
  p_sync_status :: "sync_status option"
  p_server_id :: "string option"

text \<open>
  Modelled from the spec: the table declarations (\<^verbatim>\<open>src/db/database.ts\<close>) are not
  part of the sources at hand. Section 3 of the specification makes \<^verbatim>\<open>id\<close> the
  identity of a task, so table \<^verbatim>\<open>tasks\<close> is a map from the \<^verbatim>\<open>id\<close> column to
  the other columns of the row, and an \<^verbatim>\<open>INSERT\<close> under an id already present
  is refused. Sections 2 and 4.4 make the sync queue an ordered list to which every
  mutation appends, several entries of one task side by side, so table
  \<^verbatim>\<open>sync_queue\<close> is the list of its rows in insertion order. Section 3 also
  calls the \<^verbatim>\<open>id\<close> of a queue row the identity of the entry. Whether the table
  refuses a second row under an id already present is therefore a parameter,
  \<open>unique_id\<close>, of every operation that inserts into the queue: with
  \<open>unique_id = False\<close> an \<^verbatim>\<open>INSERT\<close> always appends, with
  \<open>unique_id = True\<close> it raises when the id is taken.
\<close>

record task_row =
  r_title :: string
  r_description :: "string option"
  r_completed :: bool
  r_is_deleted :: bool
  r_created_at :: date
  r_updated_at :: date
  r_sync_status :: sync_status
  r_server_id :: "string option"
  r_last_synced_at :: "date option"

text \<open>
  A row of \<^verbatim>\<open>sync_queue\<close>, which is also the \<^verbatim>\<open>SyncQueueItem\<close> that
  \<^verbatim>\<open>sync\<close> decodes from it (the column \<^verbatim>\<open>data\<close> holds the JSON text of a
  snapshot; the model keeps the snapshot).
\<close>

record queue_item =
  q_id :: string
  q_task_id :: string
  q_operation :: operation
  q_data :: partial_task
  q_created_at :: date
  q_retry_count :: nat
  q_error_message :: "string option"

record db =
  tasks :: "string \<rightharpoonup> task_row"
  sync_queue :: "queue_item list"

datatype sql_error = ConstraintViolation

text \<open>One element of \<^verbatim>\<open>processed_items\<close> in the reply to \<^verbatim>\<open>POST /batch\<close>.\<close>

record verdict =
  client_id :: string
  status :: string
  verdict_server_id :: "string option"
  resolved_data :: "Task option"
  verdict_error :: "string option"

record sync_error =
  e_task_id :: string
  e_operation :: operation
  e_error :: string
  e_timestamp :: date

record SyncResult =
  success :: bool
  synced_items :: nat
  failed_items :: nat
  errors :: "sync_error list"

text \<open>What \<^verbatim>\<open>axios.get\<close> on the health endpoint does: it resolves on a 2xx
  answer and rejects otherwise.\<close>

datatype probe = Ok2xx | Non2xx | NetworkError | Timeout

text \<open>The local variables of the reconciliation loop of \<^verbatim>\<open>sync\<close>, together with
  the store and the number of clock readings made so far.\<close>

record pass =
  store :: db
  reads :: nat
  synced :: nat
  failed :: nat
  errs :: "sync_error list"

section \<open>JavaScript operators\<close>

text \<open>\<^verbatim>\<open>x ?? d\<close>\<close>

definition nullish :: "'a option \<Rightarrow> 'a \<Rightarrow> 'a" where
  "nullish x d = (case x of None \<Rightarrow> d | Some v \<Rightarrow> v)"

text \<open>\<^verbatim>\<open>x || d\<close> on strings: the empty string is falsy.\<close>

definition or_else :: "string \<Rightarrow> string \<Rightarrow> string" where
  "or_else x d = (if x = [] then d else x)"

definition or_else_opt :: "string option \<Rightarrow> string \<Rightarrow> string" where
  "or_else_opt x d = (case x of None \<Rightarrow> d | Some v \<Rightarrow> or_else v d)"

text \<open>A key of the right operand of an object spread overrides the left one.\<close>

definition spread :: "'a \<Rightarrow> 'a option \<Rightarrow> 'a" where
  "spread old upd = (case upd of None \<Rightarrow> old | Some v \<Rightarrow> v)"

definition spread_opt :: "'a option \<Rightarrow> 'a option \<Rightarrow> 'a option" where
  "spread_opt old upd = (case upd of None \<Rightarrow> old | Some v \<Rightarrow> Some v)"

section \<open>The statements sent to the store\<close>

text \<open>\<^verbatim>\<open>UPDATE tasks SET ... WHERE id = ?\<close>: no row, no change.\<close>

definition update_task :: "string \<Rightarrow> (task_row \<Rightarrow> task_row) \<Rightarrow> db \<Rightarrow> db" where
  "update_task k f s =
     (case tasks s k of
        None \<Rightarrow> s
      | Some row \<Rightarrow> s\<lparr>tasks := (tasks s)(k \<mapsto> f row)\<rparr>)"

text \<open>\<^verbatim>\<open>INSERT INTO tasks ...\<close>\<close>

definition insert_task :: "string \<Rightarrow> task_row \<Rightarrow> db \<Rightarrow> sql_error + db" where
  "insert_task k row s =
     (case tasks s k of
        None \<Rightarrow> Inr (s\<lparr>tasks := (tasks s)(k \<mapsto> row)\<rparr>)
      | Some _ \<Rightarrow> Inl ConstraintViolation)"

text \<open>\<^verbatim>\<open>INSERT INTO sync_queue ...\<close>\<close>

definition insert_queue :: "bool \<Rightarrow> queue_item \<Rightarrow> db \<Rightarrow> sql_error + db" where
  "insert_queue unique_id row s =
     (if unique_id \<and> q_id row \<in> set (map q_id (sync_queue s))
      then Inl ConstraintViolation
      else Inr (s\<lparr>sync_queue := sync_queue s @ [row]\<rparr>))"

text \<open>\<^verbatim>\<open>DELETE FROM sync_queue WHERE id = ?\<close>\<close>

definition delete_queue :: "string \<Rightarrow> db \<Rightarrow> db" where
  "delete_queue qid s = s\<lparr>sync_queue := filter (\<lambda>r. q_id r \<noteq> qid) (sync_queue s)\<rparr>"

text \<open>\<^verbatim>\<open>UPDATE sync_queue SET retry_count = retry_count + 1, error_message = ? WHERE id = ?\<close>\<close>

definition bump_retry :: "string \<Rightarrow> string \<Rightarrow> queue_item \<Rightarrow> queue_item" where
  "bump_retry qid msg r =
     (if q_id r = qid
      then r\<lparr>q_retry_count := q_retry_count r + 1, q_error_message := Some msg\<rparr>
      else r)"

definition update_queue_error :: "string \<Rightarrow> string \<Rightarrow> db \<Rightarrow> db" where
  "update_queue_error qid msg s = s\<lparr>sync_queue := map (bump_retry qid msg) (sync_queue s)\<rparr>"

text \<open>\<^verbatim>\<open>SELECT * FROM sync_queue ORDER BY created_at LIMIT ?\<close>; rows with equal
  \<^verbatim>\<open>created_at\<close> come in insertion order.\<close>

definition select_batch :: "nat \<Rightarrow> db \<Rightarrow> queue_item list" where
  "select_batch batchSize s = take batchSize (sort_key q_created_at (sync_queue s))"

section \<open>SyncService\<close>

definition addToSyncQueue :: "bool \<Rightarrow> date \<Rightarrow> string \<Rightarrow> operation \<Rightarrow> partial_task \<Rightarrow> db
    \<Rightarrow> sql_error + db" where
  "addToSyncQueue unique_id now taskId op data s =
     insert_queue unique_id
       \<lparr>q_id = taskId, q_task_id = taskId, q_operation = op, q_data = data,
        q_created_at = now, q_retry_count = 0, q_error_message = None\<rparr> s"

definition resolveConflict :: "Task \<Rightarrow> Task \<Rightarrow> Task" where
  "resolveConflict localTask serverTask =
     (let localTime = updated_at localTask;
          serverTime = updated_at serverTask
      in if serverTime > localTime then serverTask else localTask)"

text \<open>The third argument is \<^verbatim>\<open>serverData?.server_id ?? null\<close>.\<close>

definition updateSyncStatus :: "date \<Rightarrow> string \<Rightarrow> sync_status \<Rightarrow> string option \<Rightarrow> db \<Rightarrow> db" where
  "updateSyncStatus now taskId st sid s =
     update_task taskId
       (\<lambda>row. row\<lparr>r_sync_status := st, r_last_synced_at := Some now,
                  r_server_id := (case sid of None \<Rightarrow> r_server_id row | Some v \<Rightarrow> Some v)\<rparr>) s"

text \<open>The second argument is \<^verbatim>\<open>error.message\<close>.\<close>

definition handleSyncError :: "date \<Rightarrow> queue_item \<Rightarrow> string \<Rightarrow> db \<Rightarrow> db" where
  "handleSyncError now item msg s =
     updateSyncStatus now (q_task_id item) Error None (update_queue_error (q_id item) msg s)"

definition checkConnectivity :: "probe \<Rightarrow> bool" where
  "checkConnectivity p = (case p of Ok2xx \<Rightarrow> True | _ \<Rightarrow> False)"

section \<open>TaskService\<close>

definition rowToTask :: "string \<Rightarrow> task_row \<Rightarrow> Task" where
  "rowToTask k row =
     \<lparr>tid = k, title = r_title row, description = r_description row,
      completed = r_completed row, is_deleted = r_is_deleted row,
      created_at = r_created_at row, updated_at = r_updated_at row,
      sync_status = r_sync_status row, server_id = r_server_id row\<rparr>"

text \<open>The snapshot the three mutations hand to \<^verbatim>\<open>addToSyncQueue\<close>.\<close>

definition snapshot :: "string \<Rightarrow> string \<Rightarrow> string option \<Rightarrow> bool \<Rightarrow> date \<Rightarrow> date \<Rightarrow> bool
    \<Rightarrow> string option \<Rightarrow> partial_task" where
  "snapshot i t d c u cr del sid =
     \<lparr>p_id = Some i, p_title = Some t, p_description = d, p_completed = Some c,
      p_is_deleted = Some del, p_created_at = Some cr, p_updated_at = Some u,
      p_sync_status = None, p_server_id = sid\<rparr>"

definition getTask :: "db \<Rightarrow> string \<Rightarrow> Task option" where
  "getTask s i =
     (case tasks s i of
        None \<Rightarrow> None
      | Some row \<Rightarrow> (let t = rowToTask i row in if is_deleted t then None else Some t))"

text \<open>
  The three mutations return the store they leave and their outcome: \<open>Inr\<close> the
  value the promise resolves to, \<open>Inl\<close> the error it rejects with (the store then
  holds what was written before the statement that raised). \<open>uid\<close> is the value of
  \<^verbatim>\<open>uuidv4()\<close>; \<open>clock 0\<close> is \<^verbatim>\<open>now\<close>, \<open>clock 1\<close> the reading
  \<^verbatim>\<open>addToSyncQueue\<close> makes.
\<close>

definition createTask :: "bool \<Rightarrow> (nat \<Rightarrow> date) \<Rightarrow> string \<Rightarrow> partial_task \<Rightarrow> db
    \<Rightarrow> db \<times> (sql_error + Task)" where
  "createTask unique_id clock uid taskData s =
     (let now = clock 0;
          task = \<lparr>tid = uid,
                  title = nullish (p_title taskData) [],
                  description = Some (nullish (p_description taskData) []),
                  completed = nullish (p_completed taskData) False,
                  is_deleted = False,
                  created_at = now,
                  updated_at = now,
                  sync_status = Pending,
                  server_id = p_server_id taskData\<rparr>
      in case insert_task (tid task)
                \<lparr>r_title = title task, r_description = description task,
                 r_completed = completed task, r_is_deleted = is_deleted task,
                 r_created_at = created_at task, r_updated_at = updated_at task,
                 r_sync_status = sync_status task, r_server_id = server_id task,
                 r_last_synced_at = None\<rparr> s of
           Inl e \<Rightarrow> (s, Inl e)
         | Inr s1 \<Rightarrow>
             (case addToSyncQueue unique_id (clock 1) (tid task) Create
                     (snapshot (tid task) (title task) (description task) (completed task)
                        (updated_at task) (created_at task) (is_deleted task)
                        (server_id task)) s1 of
                Inl e \<Rightarrow> (s1, Inl e)
              | Inr s2 \<Rightarrow> (s2, Inr task)))"

definition updateTask :: "bool \<Rightarrow> (nat \<Rightarrow> date) \<Rightarrow> string \<Rightarrow> partial_task \<Rightarrow> db
    \<Rightarrow> db \<times> (sql_error + Task option)" where
  "updateTask unique_id clock i updates s =
     (case tasks s i of
        None \<Rightarrow> (s, Inr None)
      | Some existingRow \<Rightarrow>
          (let existing = rowToTask i existingRow;
               now = clock 0;
               updated = \<lparr>tid = spread (tid existing) (p_id updates),
                          title = spread (title existing) (p_title updates),
                          description = spread_opt (description existing) (p_description updates),
                          completed = spread (completed existing) (p_completed updates),
                          is_deleted = spread (is_deleted existing) (p_is_deleted updates),
                          created_at = spread (created_at existing) (p_created_at updates),
                          updated_at = now,
                          sync_status = Pending,
                          server_id = spread_opt (server_id existing) (p_server_id updates)\<rparr>;
               s1 = update_task i
                      (\<lambda>row. row\<lparr>r_title := title updated, r_description := description updated,
                                 r_completed := completed updated, r_is_deleted := is_deleted updated,
                                 r_updated_at := updated_at updated,
                                 r_sync_status := sync_status updated,
                                 r_server_id := server_id updated\<rparr>) s
           in case addToSyncQueue unique_id (clock 1) i Update
                     (snapshot (tid updated) (title updated) (description updated)
                        (completed updated) (updated_at updated) (created_at updated)
                        (is_deleted updated) (server_id updated)) s1 of
                Inl e \<Rightarrow> (s1, Inl e)
              | Inr s2 \<Rightarrow> (s2, Inr (Some updated))))"

definition deleteTask :: "bool \<Rightarrow> (nat \<Rightarrow> date) \<Rightarrow> string \<Rightarrow> db \<Rightarrow> db \<times> (sql_error + bool)" where
  "deleteTask unique_id clock i s =
     (case tasks s i of
        None \<Rightarrow> (s, Inr False)
      | Some existingRow \<Rightarrow>
          (let existing = rowToTask i existingRow;
               now = clock 0;
               s1 = update_task i
                      (\<lambda>row. row\<lparr>r_is_deleted := True, r_updated_at := now,
                                 r_sync_status := Pending\<rparr>) s
           in case addToSyncQueue unique_id (clock 1) i Delete
                     (snapshot (tid existing) (title existing) (description existing)
                        (completed existing) now (created_at existing) True
                        (server_id existing)) s1 of
                Inl e \<Rightarrow> (s1, Inl e)
              | Inr s2 \<Rightarrow> (s2, Inr True)))"

section \<open>The sync pass\<close>

text \<open>The write-back of a resolved conflict (the \<^verbatim>\<open>UPDATE tasks\<close> of \<^verbatim>\<open>sync\<close>).\<close>

definition write_winner :: "string \<Rightarrow> Task \<Rightarrow> string option \<Rightarrow> db \<Rightarrow> db" where
  "write_winner k winner sid s =
     update_task k
       (\<lambda>row. row\<lparr>r_title := title winner, r_description := description winner,
                  r_completed := completed winner, r_updated_at := updated_at winner,
                  r_sync_status := Synced, r_server_id := sid\<rparr>) s"

text \<open>The failure branch shared by an unresolved conflict and a rejection.\<close>

definition fail_item :: "(nat \<Rightarrow> date) \<Rightarrow> queue_item \<Rightarrow> string \<Rightarrow> pass \<Rightarrow> pass" where
  "fail_item clock item msg p =
     p\<lparr>store := handleSyncError (clock (reads p)) item msg (store p),
       reads := reads p + 2,
       failed := failed p + 1,
       errs := errs p @
         [\<lparr>e_task_id = q_task_id item, e_operation = q_operation item, e_error = msg,
           e_timestamp = clock (reads p + 1)\<rparr>]\<rparr>"

text \<open>
  What the conflict branch does once \<^verbatim>\<open>getTask\<close> has returned \<open>local\<close>: it
  picks the winner, writes it over the row and deletes the queue rows of the item. The
  read and this write are separate \<^verbatim>\<open>await\<close>s with no transaction around them and
  no guard in the \<^verbatim>\<open>UPDATE\<close>, so the store \<open>p\<close> carries here need not be the
  one \<open>local\<close> was read from.
\<close>

definition resolve_and_write :: "queue_item \<Rightarrow> Task \<Rightarrow> Task \<Rightarrow> string option \<Rightarrow> pass \<Rightarrow> pass" where
  "resolve_and_write item local serverTask sid p =
     (let winner = resolveConflict local serverTask
      in p\<lparr>store := delete_queue (q_id item) (write_winner (tid local) winner sid (store p)),
           synced := synced p + 1\<rparr>)"

text \<open>
  The body of the loop over \<^verbatim>\<open>response.processed_items\<close>, run with no other
  operation between its statements: the conflict branch reads the local task and
  writes the winner on the same store.
\<close>

definition reconcile :: "(nat \<Rightarrow> date) \<Rightarrow> queue_item list \<Rightarrow> pass \<Rightarrow> verdict \<Rightarrow> pass" where
  "reconcile clock items p processed =
     (case find (\<lambda>i. q_id i = client_id processed) items of
        None \<Rightarrow> p
      | Some item \<Rightarrow>
          if status processed = ''success'' then
            p\<lparr>store := delete_queue (q_id item)
                 (updateSyncStatus (clock (reads p)) (q_task_id item) Synced
                    (verdict_server_id processed) (store p)),
              reads := reads p + 1,
              synced := synced p + 1\<rparr>
          else if status processed = ''conflict'' then
            (case getTask (store p) (q_task_id item) of
               None \<Rightarrow> fail_item clock item ''Conflict unresolved'' p
             | Some local \<Rightarrow>
                 (case resolved_data processed of
                    None \<Rightarrow> fail_item clock item ''Conflict unresolved'' p
                  | Some serverTask \<Rightarrow>
                      resolve_and_write item local serverTask (verdict_server_id processed) p))
          else fail_item clock item (or_else_opt (verdict_error processed) ''sync error'') p)"

text \<open>The \<^verbatim>\<open>catch\<close> branch: \<^verbatim>\<open>handleSyncError\<close> for every item of the batch, the
  \<open>k\<close>-th reading of the clock being the next one.\<close>

fun fail_batch :: "(nat \<Rightarrow> date) \<Rightarrow> string \<Rightarrow> nat \<Rightarrow> queue_item list \<Rightarrow> db \<Rightarrow> db" where
  "fail_batch clock msg k [] s = s"
| "fail_batch clock msg k (item # items) s =
     fail_batch clock msg (Suc k) items (handleSyncError (clock k) item msg s)"

fun batch_errors :: "(nat \<Rightarrow> date) \<Rightarrow> string \<Rightarrow> nat \<Rightarrow> queue_item list \<Rightarrow> sync_error list" where
  "batch_errors clock msg k [] = []"
| "batch_errors clock msg k (i # items) =
     \<lparr>e_task_id = q_task_id i, e_operation = q_operation i,
      e_error = or_else msg ''batch error'', e_timestamp = clock k\<rparr>
     # batch_errors clock msg (Suc k) items"

text \<open>
  \<open>sync batchSize clock health reply s\<close>: \<open>health\<close> is what the liveness probe
  does, so that \<open>checkConnectivity health\<close> is the variable \<^verbatim>\<open>online\<close>; \<open>reply\<close> is what \<^verbatim>\<open>processBatch\<close> does, \<open>Inl msg\<close> when the request
  throws an error with message \<open>msg\<close> and \<open>Inr vs\<close> when it returns the verdicts
  \<open>vs\<close> (a reply that has a \<^verbatim>\<open>processed_items\<close> array). \<open>batchSize\<close> is the
  configured batch size, a natural number. Reading \<open>0\<close> of the clock is the
  \<^verbatim>\<open>client_timestamp\<close> of the request. The pass runs alone: no mutation of the
  task service is interleaved with its statements.
\<close>

definition sync :: "nat \<Rightarrow> (nat \<Rightarrow> date) \<Rightarrow> probe \<Rightarrow> string + verdict list \<Rightarrow> db \<Rightarrow> db \<times> SyncResult" where
  "sync batchSize clock health reply s =
     (if \<not> checkConnectivity health
      then (s, \<lparr>success = False, synced_items = 0, failed_items = 0, errors = []\<rparr>)
      else
        (let items = select_batch batchSize s
         in if items = []
            then (s, \<lparr>success = True, synced_items = 0, failed_items = 0, errors = []\<rparr>)
            else
              (case reply of
                 Inl msg \<Rightarrow>
                   (fail_batch clock msg 1 items s,
                    \<lparr>success = False, synced_items = 0, failed_items = length items,
                     errors = batch_errors clock msg (1 + length items) items\<rparr>)
               | Inr processed_items \<Rightarrow>
                   (let p = foldl (reconcile clock items)
                              \<lparr>store = s, reads = 1, synced = 0, failed = 0, errs = []\<rparr>
                              processed_items
                    in (store p,
                        \<lparr>success = (failed p = 0), synced_items = synced p,
                         failed_items = failed p, errors = errs p\<rparr>)))))"

text \<open>The state of the loop of \<open>sync\<close> once the verdicts \<open>vs\<close> have been
  processed.\<close>

definition verdict_loop :: "nat \<Rightarrow> (nat \<Rightarrow> date) \<Rightarrow> db \<Rightarrow> verdict list \<Rightarrow> pass" where
  "verdict_loop batchSize clock s vs =
     foldl (reconcile clock (select_batch batchSize s))
       \<lparr>store = s, reads = 1, synced = 0, failed = 0, errs = []\<rparr> vs"

section \<open>States the operations can reach\<close>

text \<open>Every state of the store arises from the empty one by the public operations of
  the two services, whether they return or raise; \<open>uq\<close> is the parameter
  \<open>unique_id\<close> of the store.\<close>

inductive reachable :: "bool \<Rightarrow> db \<Rightarrow> bool" where
  init: "reachable uq \<lparr>tasks = Map.empty, sync_queue = []\<rparr>"
| enqueue: "reachable uq s \<Longrightarrow> addToSyncQueue uq now i op d s = Inr s' \<Longrightarrow> reachable uq s'"
| create: "reachable uq s \<Longrightarrow> createTask uq clock uid d s = (s', r) \<Longrightarrow> reachable uq s'"
| update: "reachable uq s \<Longrightarrow> updateTask uq clock i u s = (s', r) \<Longrightarrow> reachable uq s'"
| delete: "reachable uq s \<Longrightarrow> deleteTask uq clock i s = (s', r) \<Longrightarrow> reachable uq s'"
| sync: "reachable uq s \<Longrightarrow> sync n clock health reply s = (s', res) \<Longrightarrow> reachable uq s'"

text \<open>Every queue row holds the id of its owning task in its \<^verbatim>\<open>id\<close> column.\<close>

definition ids_ok :: "db \<Rightarrow> bool" where
  "ids_ok s = (\<forall>r \<in> set (sync_queue s). q_id r = q_task_id r)"

section \<open>A worked scenario\<close>

text \<open>
  One task \<open>''A''\<close> is created at time 100, marked completed at time 200 and
  soft-deleted at time 300; the three clocks start at these times and advance by one
  millisecond per reading. The values below are the tasks, rows, queue entries and
  stores these steps produce, and the verdicts a remote service may send back. A
  second line of events has the creation followed by a conflict resolved to the
  server's snapshot and then by the soft-deletion (\<open>db_resolved\<close>, \<open>db_tomb\<close>).
\<close>

definition clock_a :: "nat \<Rightarrow> date" where "clock_a k = 100 + int k"
definition clock_b :: "nat \<Rightarrow> date" where "clock_b k = 200 + int k"
definition clock_c :: "nat \<Rightarrow> date" where "clock_c k = 300 + int k"
definition db_empty :: db where "db_empty = \<lparr>tasks = Map.empty, sync_queue = []\<rparr>"
definition data_milk :: partial_task where
  "data_milk = \<lparr>p_id = None, p_title = Some ''buy milk'', p_description = None, p_completed = None,
     p_is_deleted = None, p_created_at = None, p_updated_at = None, p_sync_status = None, p_server_id = None\<rparr>"
definition upd_done :: partial_task where
  "upd_done = \<lparr>p_id = None, p_title = None, p_description = None, p_completed = Some True,
     p_is_deleted = None, p_created_at = None, p_updated_at = None, p_sync_status = None, p_server_id = None\<rparr>"
definition task_server :: Task where
  "task_server = \<lparr>tid = ''A'', title = ''buy oat milk'', description = None, completed = True,
     is_deleted = False, created_at = 100, updated_at = 1000, sync_status = Synced,
     server_id = Some ''srv-1''\<rparr>"
definition verdict_accept :: verdict where
  "verdict_accept = \<lparr>client_id = ''A'', status = ''success'', verdict_server_id = Some ''srv-1'',
     resolved_data = None, verdict_error = None\<rparr>"
definition verdict_reject :: verdict where
  "verdict_reject = \<lparr>client_id = ''A'', status = ''error'', verdict_server_id = None,
     resolved_data = None, verdict_error = Some ''rejected''\<rparr>"
definition verdict_conflict :: verdict where
  "verdict_conflict = \<lparr>client_id = ''A'', status = ''conflict'', verdict_server_id = Some ''srv-1'',
     resolved_data = Some task_server, verdict_error = None\<rparr>"
definition verdict_unresolved :: verdict where
  "verdict_unresolved = \<lparr>client_id = ''A'', status = ''conflict'', verdict_server_id = None,
     resolved_data = None, verdict_error = None\<rparr>"

definition task_created :: Task where
  "task_created = \<lparr>tid = ''A'', title = ''buy milk'', description = Some [], completed = False,
     is_deleted = False, created_at = 100, updated_at = 100, sync_status = Pending,
     server_id = None\<rparr>"
definition row_created :: task_row where
  "row_created = \<lparr>r_title = ''buy milk'', r_description = Some [], r_completed = False,
     r_is_deleted = False, r_created_at = 100, r_updated_at = 100, r_sync_status = Pending,
     r_server_id = None, r_last_synced_at = None\<rparr>"
definition entry_create :: queue_item where
  "entry_create = \<lparr>q_id = ''A'', q_task_id = ''A'', q_operation = Create,
     q_data = \<lparr>p_id = Some ''A'', p_title = Some ''buy milk'', p_description = Some [],
        p_completed = Some False, p_is_deleted = Some False, p_created_at = Some 100,
        p_updated_at = Some 100, p_sync_status = None, p_server_id = None\<rparr>,
     q_created_at = 101, q_retry_count = 0, q_error_message = None\<rparr>"
definition db_created :: db where
  "db_created = \<lparr>tasks = [''A'' \<mapsto> row_created], sync_queue = [entry_create]\<rparr>"

definition task_updated :: Task where
  "task_updated = \<lparr>tid = ''A'', title = ''buy milk'', description = Some [], completed = True,
     is_deleted = False, created_at = 100, updated_at = 200, sync_status = Pending,
     server_id = None\<rparr>"
definition row_updated :: task_row where
  "row_updated = \<lparr>r_title = ''buy milk'', r_description = Some [], r_completed = True,
     r_is_deleted = False, r_created_at = 100, r_updated_at = 200, r_sync_status = Pending,
     r_server_id = None, r_last_synced_at = None\<rparr>"
definition entry_update :: queue_item where
  "entry_update = \<lparr>q_id = ''A'', q_task_id = ''A'', q_operation = Update,
     q_data = \<lparr>p_id = Some ''A'', p_title = Some ''buy milk'', p_description = Some [],
        p_completed = Some True, p_is_deleted = Some False, p_created_at = Some 100,
        p_updated_at = Some 200, p_sync_status = None, p_server_id = None\<rparr>,
     q_created_at = 201, q_retry_count = 0, q_error_message = None\<rparr>"
definition db_updated :: db where
  "db_updated = \<lparr>tasks = [''A'' \<mapsto> row_updated], sync_queue = [entry_create, entry_update]\<rparr>"

definition db_unqueued :: db where
  "db_unqueued = \<lparr>tasks = [''A'' \<mapsto> row_updated], sync_queue = [entry_create]\<rparr>"

definition row_resolved :: task_row where
  "row_resolved = \<lparr>r_title = ''buy oat milk'', r_description = None, r_completed = True,
      r_is_deleted = False, r_created_at = 100, r_updated_at = 1000,
      r_sync_status = Synced, r_server_id = Some ''srv-1'',
      r_last_synced_at = None\<rparr>"
definition db_resolved :: db where
  "db_resolved = \<lparr>tasks = [''A'' \<mapsto> row_resolved], sync_queue = []\<rparr>"
definition row_reupdated :: task_row where
  "row_reupdated = \<lparr>r_title = ''buy oat milk'', r_description = None, r_completed = True,
      r_is_deleted = False, r_created_at = 100, r_updated_at = 300,
      r_sync_status = Pending, r_server_id = Some ''srv-1'',
      r_last_synced_at = None\<rparr>"
definition row_deleted :: task_row where
  "row_deleted = \<lparr>r_title = ''buy milk'', r_description = Some [], r_completed = True,
     r_is_deleted = True, r_created_at = 100, r_updated_at = 300, r_sync_status = Pending,
     r_server_id = None, r_last_synced_at = None\<rparr>"
definition entry_delete :: queue_item where
  "entry_delete = \<lparr>q_id = ''A'', q_task_id = ''A'', q_operation = Delete,
     q_data = \<lparr>p_id = Some ''A'', p_title = Some ''buy milk'', p_description = Some [],
        p_completed = Some True, p_is_deleted = Some True, p_created_at = Some 100,
        p_updated_at = Some 300, p_sync_status = None, p_server_id = None\<rparr>,
     q_created_at = 301, q_retry_count = 0, q_error_message = None\<rparr>"
definition db_deleted :: db where
  "db_deleted = \<lparr>tasks = [''A'' \<mapsto> row_deleted],
     sync_queue = [entry_create, entry_update, entry_delete]\<rparr>"
definition task_server_early :: Task where
  "task_server_early = \<lparr>tid = ''A'', title = ''buy oat milk'', description = None,
     completed = True, is_deleted = False, created_at = 100, updated_at = 150,
     sync_status = Synced, server_id = Some ''srv-1''\<rparr>"
definition pass_unqueued :: pass where
  "pass_unqueued = \<lparr>store = db_unqueued, reads = 1, synced = 0, failed = 0, errs = []\<rparr>"
definition row_overwritten :: task_row where
  "row_overwritten = \<lparr>r_title = ''buy oat milk'', r_description = None, r_completed = True,
      r_is_deleted = False, r_created_at = 100, r_updated_at = 150,
      r_sync_status = Synced, r_server_id = Some ''srv-1'',
      r_last_synced_at = None\<rparr>"
definition clock_d :: "nat \<Rightarrow> date" where "clock_d k = 400 + int k"
definition row_tomb :: task_row where
  "row_tomb = \<lparr>r_title = ''buy oat milk'', r_description = None, r_completed = True,
      r_is_deleted = True, r_created_at = 100, r_updated_at = 300,
      r_sync_status = Pending, r_server_id = Some ''srv-1'',
      r_last_synced_at = None\<rparr>"
definition entry_tomb :: queue_item where
  "entry_tomb = \<lparr>q_id = ''A'', q_task_id = ''A'', q_operation = Delete,
     q_data = \<lparr>p_id = Some ''A'', p_title = Some ''buy oat milk'', p_description = None,
        p_completed = Some True, p_is_deleted = Some True, p_created_at = Some 100,
        p_updated_at = Some 300, p_sync_status = None, p_server_id = Some ''srv-1''\<rparr>,
     q_created_at = 301, q_retry_count = 0, q_error_message = None\<rparr>"
definition db_tomb :: db where
  "db_tomb = \<lparr>tasks = [''A'' \<mapsto> row_tomb], sync_queue = [entry_tomb]\<rparr>"
definition row_synced :: task_row where
  "row_synced = \<lparr>r_title = ''buy milk'', r_description = Some [], r_completed = False,
      r_is_deleted = False, r_created_at = 100, r_updated_at = 100,
      r_sync_status = Synced, r_server_id = Some ''srv-1'',
      r_last_synced_at = Some 201\<rparr>"
definition row_failed :: task_row where
  "row_failed = \<lparr>r_title = ''buy milk'', r_description = Some [], r_completed = False,
      r_is_deleted = False, r_created_at = 100, r_updated_at = 100,
      r_sync_status = Error, r_server_id = None,
      r_last_synced_at = Some 201\<rparr>"
definition entry_create_failed :: queue_item where
  "entry_create_failed = entry_create\<lparr>q_retry_count := 1,
      q_error_message := Some ''Conflict unresolved''\<rparr>"
definition task_second :: Task where
  "task_second = \<lparr>tid = ''B'', title = ''buy milk'', description = Some [], completed = False,
     is_deleted = False, created_at = 200, updated_at = 200, sync_status = Pending,
     server_id = None\<rparr>"
definition db_second :: db where
  "db_second = \<lparr>tasks = [''A'' \<mapsto> row_created,
       ''B'' \<mapsto> \<lparr>r_title = ''buy milk'', r_description = Some [], r_completed = False,
         r_is_deleted = False, r_created_at = 200, r_updated_at = 200,
         r_sync_status = Pending, r_server_id = None, r_last_synced_at = None\<rparr>],
     sync_queue = [entry_create,
       \<lparr>q_id = ''B'', q_task_id = ''B'', q_operation = Create,
        q_data = \<lparr>p_id = Some ''B'', p_title = Some ''buy milk'', p_description = Some [],
          p_completed = Some False, p_is_deleted = Some False, p_created_at = Some 200,
          p_updated_at = Some 200, p_sync_status = None, p_server_id = None\<rparr>,
        q_created_at = 201, q_retry_count = 0, q_error_message = None\<rparr>]\<rparr>"

section \<open>Unfolding sets\<close>

lemmas scenario_defs =
  clock_a_def clock_b_def clock_c_def db_empty_def data_milk_def upd_done_def task_server_def
  verdict_accept_def verdict_reject_def verdict_conflict_def verdict_unresolved_def
  task_created_def row_created_def entry_create_def db_created_def
  task_updated_def row_updated_def entry_update_def db_updated_def
  row_resolved_def db_resolved_def row_reupdated_def
  row_deleted_def entry_delete_def db_deleted_def
  row_synced_def row_failed_def entry_create_failed_def task_second_def db_second_def
  db_unqueued_def task_server_early_def pass_unqueued_def
  row_overwritten_def clock_d_def row_tomb_def entry_tomb_def db_tomb_def

lemmas op_defs =
  createTask_def updateTask_def deleteTask_def insert_task_def update_task_def
  addToSyncQueue_def insert_queue_def snapshot_def nullish_def spread_def spread_opt_def rowToTask_def Let_def

lemmas sync_defs =
  sync_def checkConnectivity_def select_batch_def reconcile_def resolve_and_write_def
  fail_item_def
  handleSyncError_def updateSyncStatus_def update_queue_error_def bump_retry_def
  delete_queue_def write_winner_def update_task_def getTask_def rowToTask_def
  resolveConflict_def or_else_def or_else_opt_def Let_def

section \<open>What each statement does to the two tables\<close>

lemma tasks_update_task:
  "tasks (update_task k f s) j = (if j = k then map_option f (tasks s k) else tasks s j)"
  by (simp add: update_task_def split: option.splits)

lemma sync_queue_update_task: "sync_queue (update_task k f s) = sync_queue s"
  by (simp add: update_task_def split: option.splits)

lemma tasks_delete_queue: "tasks (delete_queue q s) = tasks s"
  by (simp add: delete_queue_def)

lemma sync_queue_delete_queue:
  "sync_queue (delete_queue q s) = filter (\<lambda>r. q_id r \<noteq> q) (sync_queue s)"
  by (simp add: delete_queue_def)

lemma tasks_update_queue_error: "tasks (update_queue_error q msg s) = tasks s"
  by (simp add: update_queue_error_def)

lemma sync_queue_update_queue_error:
  "sync_queue (update_queue_error q msg s) = map (bump_retry q msg) (sync_queue s)"
  by (simp add: update_queue_error_def)

lemma addToSyncQueue_Inr:
  assumes "addToSyncQueue uq now i op d s = Inr s'"
  shows "tasks s' = tasks s"
    and "sync_queue s' = sync_queue s @
           [\<lparr>q_id = i, q_task_id = i, q_operation = op, q_data = d,
             q_created_at = now, q_retry_count = 0, q_error_message = None\<rparr>]"
    and "uq \<Longrightarrow> i \<notin> set (map q_id (sync_queue s))"
  using assms by (auto simp: addToSyncQueue_def insert_queue_def split: if_splits)

lemma addToSyncQueue_free:
  "\<not> uq \<or> i \<notin> set (map q_id (sync_queue s)) \<Longrightarrow>
     \<exists>s'. addToSyncQueue uq now i op d s = Inr s'"
  by (auto simp: addToSyncQueue_def insert_queue_def)

lemma addToSyncQueue_taken:
  "uq \<Longrightarrow> i \<in> set (map q_id (sync_queue s)) \<Longrightarrow>
     addToSyncQueue uq now i op d s = Inl ConstraintViolation"
  by (simp add: addToSyncQueue_def insert_queue_def)

lemma tasks_updateSyncStatus:
  "tasks (updateSyncStatus now i st sid s) j =
     (if j = i
      then map_option (\<lambda>row. row\<lparr>r_sync_status := st, r_last_synced_at := Some now,
              r_server_id := (case sid of None \<Rightarrow> r_server_id row | Some v \<Rightarrow> Some v)\<rparr>) (tasks s i)
      else tasks s j)"
  by (simp add: updateSyncStatus_def tasks_update_task)

lemma sync_queue_updateSyncStatus: "sync_queue (updateSyncStatus now i st sid s) = sync_queue s"
  by (simp add: updateSyncStatus_def sync_queue_update_task)

lemma tasks_handleSyncError:
  "tasks (handleSyncError now item msg s) j =
     (if j = q_task_id item
      then map_option (\<lambda>row. row\<lparr>r_sync_status := Error, r_last_synced_at := Some now\<rparr>)
             (tasks s (q_task_id item))
      else tasks s j)"
  by (simp add: handleSyncError_def tasks_updateSyncStatus tasks_update_queue_error)

lemma sync_queue_handleSyncError:
  "sync_queue (handleSyncError now item msg s) = map (bump_retry (q_id item) msg) (sync_queue s)"
  by (simp add: handleSyncError_def sync_queue_updateSyncStatus sync_queue_update_queue_error)

lemma tasks_write_winner:
  "tasks (write_winner k w sid s) j =
     (if j = k
      then map_option (\<lambda>row. row\<lparr>r_title := title w, r_description := description w,
                  r_completed := completed w, r_updated_at := updated_at w,
                  r_sync_status := Synced, r_server_id := sid\<rparr>) (tasks s k)
      else tasks s j)"
  by (simp add: write_winner_def tasks_update_task)

lemma sync_queue_write_winner: "sync_queue (write_winner k w sid s) = sync_queue s"
  by (simp add: write_winner_def sync_queue_update_task)

lemma fail_item_fields:
  "store (fail_item clock item msg p) = handleSyncError (clock (reads p)) item msg (store p)"
  "synced (fail_item clock item msg p) = synced p"
  "failed (fail_item clock item msg p) = failed p + 1"
  "errs (fail_item clock item msg p) = errs p @
         [\<lparr>e_task_id = q_task_id item, e_operation = q_operation item, e_error = msg,
           e_timestamp = clock (reads p + 1)\<rparr>]"
  "reads (fail_item clock item msg p) = reads p + 2"
  by (simp_all add: fail_item_def)

section \<open>The three mutations of the task service\<close>

lemma createTask_Inr:
  assumes "createTask uq clock uid d s = (s', Inr t)"
  shows "tasks s uid = None"
    and "t = \<lparr>tid = uid, title = nullish (p_title d) [],
              description = Some (nullish (p_description d) []),
              completed = nullish (p_completed d) False, is_deleted = False,
              created_at = clock 0, updated_at = clock 0, sync_status = Pending,
              server_id = p_server_id d\<rparr>"
    and "tasks s' = (tasks s)(uid \<mapsto>
           \<lparr>r_title = title t, r_description = description t, r_completed = completed t,
            r_is_deleted = is_deleted t, r_created_at = created_at t,
            r_updated_at = updated_at t, r_sync_status = sync_status t,
            r_server_id = server_id t, r_last_synced_at = None\<rparr>)"
    and "sync_queue s' = sync_queue s @
           [\<lparr>q_id = uid, q_task_id = uid, q_operation = Create,
             q_data = snapshot uid (title t) (description t) (completed t) (updated_at t)
                        (created_at t) (is_deleted t) (server_id t),
             q_created_at = clock 1, q_retry_count = 0, q_error_message = None\<rparr>]"
  using assms
  by (auto simp: createTask_def Let_def insert_task_def addToSyncQueue_def insert_queue_def
           split: option.splits if_splits)

lemma createTask_taken:
  "tasks s uid = Some row \<Longrightarrow> createTask uq clock uid d s = (s, Inl ConstraintViolation)"
  by (simp add: createTask_def Let_def insert_task_def)

lemma createTask_fresh:
  "tasks s uid = None \<Longrightarrow> \<not> uq \<or> uid \<notin> set (map q_id (sync_queue s)) \<Longrightarrow>
     \<exists>s' t. createTask uq clock uid d s = (s', Inr t)"
  by (auto simp: createTask_def Let_def insert_task_def addToSyncQueue_def insert_queue_def)

lemma updateTask_missing: "tasks s i = None \<Longrightarrow> updateTask uq clock i u s = (s, Inr None)"
  by (simp add: updateTask_def)

lemma deleteTask_missing: "tasks s i = None \<Longrightarrow> deleteTask uq clock i s = (s, Inr False)"
  by (simp add: deleteTask_def)

lemma updateTask_Some:
  assumes "updateTask uq clock i u s = (s', Inr (Some t))"
  shows "\<exists>row. tasks s i = Some row \<and>
           tasks s' = (tasks s)(i \<mapsto>
              row\<lparr>r_title := title t, r_description := description t,
                  r_completed := completed t, r_is_deleted := is_deleted t,
                  r_updated_at := updated_at t, r_sync_status := sync_status t,
                  r_server_id := server_id t\<rparr>)"
    and "sync_status t = Pending"
    and "updated_at t = clock 0"
    and "sync_queue s' = sync_queue s @
           [\<lparr>q_id = i, q_task_id = i, q_operation = Update,
             q_data = snapshot (tid t) (title t) (description t) (completed t) (updated_at t)
                        (created_at t) (is_deleted t) (server_id t),
             q_created_at = clock 1, q_retry_count = 0, q_error_message = None\<rparr>]"
  using assms
  by (auto simp: updateTask_def Let_def update_task_def addToSyncQueue_def insert_queue_def
           split: option.splits if_splits)

lemma updateTask_found:
  "tasks s i = Some row \<Longrightarrow> \<not> uq \<or> i \<notin> set (map q_id (sync_queue s)) \<Longrightarrow>
     \<exists>s' t. updateTask uq clock i u s = (s', Inr (Some t))"
  by (auto simp: updateTask_def Let_def update_task_def addToSyncQueue_def insert_queue_def)

lemma updateTask_pending_entry:
  "tasks s i = Some row \<Longrightarrow> uq \<Longrightarrow> i \<in> set (map q_id (sync_queue s)) \<Longrightarrow>
     snd (updateTask uq clock i u s) = Inl ConstraintViolation \<and>
     sync_queue (fst (updateTask uq clock i u s)) = sync_queue s"
  by (auto simp: updateTask_def Let_def update_task_def addToSyncQueue_def insert_queue_def)

lemma deleteTask_True:
  assumes "deleteTask uq clock i s = (s', Inr True)"
  shows "\<exists>row. tasks s i = Some row \<and>
           tasks s' = (tasks s)(i \<mapsto>
              row\<lparr>r_is_deleted := True, r_updated_at := clock 0, r_sync_status := Pending\<rparr>) \<and>
           sync_queue s' = sync_queue s @
             [\<lparr>q_id = i, q_task_id = i, q_operation = Delete,
               q_data = snapshot i (r_title row) (r_description row) (r_completed row)
                          (clock 0) (r_created_at row) True (r_server_id row),
               q_created_at = clock 1, q_retry_count = 0, q_error_message = None\<rparr>]"
  using assms
  by (auto simp: deleteTask_def Let_def update_task_def addToSyncQueue_def insert_queue_def
           rowToTask_def split: option.splits if_splits)

lemma deleteTask_found:
  "tasks s i = Some row \<Longrightarrow> \<not> uq \<or> i \<notin> set (map q_id (sync_queue s)) \<Longrightarrow>
     \<exists>s'. deleteTask uq clock i s = (s', Inr True)"
  by (auto simp: deleteTask_def Let_def update_task_def addToSyncQueue_def insert_queue_def)

lemma updateTask_updated_at:
  assumes "tasks s k = Some row"
  shows "\<exists>row'. tasks (fst (updateTask uq clock i u s)) k = Some row' \<and>
           r_updated_at row' = (if k = i then clock 0 else r_updated_at row)"
  using assms
  by (auto simp: updateTask_def Let_def addToSyncQueue_def insert_queue_def tasks_update_task
        split: option.splits)

lemma deleteTask_updated_at:
  assumes "tasks s k = Some row"
  shows "\<exists>row'. tasks (fst (deleteTask uq clock i s)) k = Some row' \<and>
           r_updated_at row' = (if k = i then clock 0 else r_updated_at row)"
  using assms
  by (auto simp: deleteTask_def Let_def addToSyncQueue_def insert_queue_def tasks_update_task
        split: option.splits)

lemma createTask_keeps_rows:
  assumes "tasks s k = Some row"
  shows "tasks (fst (createTask uq clock uid d s)) k = Some row"
  using assms
  by (auto simp: createTask_def Let_def insert_task_def addToSyncQueue_def insert_queue_def
        split: option.splits)

section \<open>One step of the reconciliation loop\<close>

lemma reconcile_conflict_unresolved:
  assumes "find (\<lambda>i. q_id i = client_id v) items = Some item"
    and "status v = ''conflict''"
    and "getTask (store p) (q_task_id item) = None \<or> resolved_data v = None"
  shows "reconcile clock items p v = fail_item clock item ''Conflict unresolved'' p"
  using assms by (auto simp: reconcile_def split: option.splits)

lemma reconcile_success_eq:
  assumes "find (\<lambda>i. q_id i = client_id v) items = Some item"
    and "status v = ''success''"
  shows "reconcile clock items p v =
            p\<lparr>store := delete_queue (q_id item)
                 (updateSyncStatus (clock (reads p)) (q_task_id item) Synced
                    (verdict_server_id v) (store p)),
              reads := reads p + 1,
              synced := synced p + 1\<rparr>"
  using assms by (simp add: reconcile_def)

section \<open>The pass as a whole\<close>

lemma sync_offline:
  "\<not> checkConnectivity health \<Longrightarrow>
     sync n clock health reply s =
       (s, \<lparr>success = False, synced_items = 0, failed_items = 0, errors = []\<rparr>)"
  by (simp add: sync_def)


lemma length_batch_errors: "length (batch_errors clock msg k items) = length items"
  by (induction items arbitrary: k) simp_all


section \<open>\<^verbatim>\<open>updated_at\<close> during a pass\<close>

lemma updated_at_handleSyncError:
  "map_option r_updated_at (tasks (handleSyncError now item msg s) k)
     = map_option r_updated_at (tasks s k)"
  by (cases "tasks s k") (auto simp: tasks_handleSyncError)

lemma updated_at_updateSyncStatus:
  "map_option r_updated_at (tasks (updateSyncStatus now i st sid s) k)
     = map_option r_updated_at (tasks s k)"
  by (cases "tasks s k") (auto simp: tasks_updateSyncStatus)

lemma getTask_SomeD:
  "getTask s i = Some t \<Longrightarrow> \<exists>row. tasks s i = Some row \<and> t = rowToTask i row"
  by (auto simp: getTask_def Let_def split: option.splits if_splits)

lemma getTask_None_iff:
  "getTask s i = None \<longleftrightarrow>
     tasks s i = None \<or> (\<exists>row. tasks s i = Some row \<and> r_is_deleted row)"
  by (auto simp: getTask_def Let_def rowToTask_def split: option.splits)

lemma resolveConflict_ge: "updated_at l \<le> updated_at (resolveConflict l sv)"
  by (simp add: resolveConflict_def Let_def)

lemma reconcile_mono:
  assumes "tasks (store p) k = Some row"
  shows "\<exists>row'. tasks (store (reconcile clock items p v)) k = Some row' \<and>
                r_updated_at row \<le> r_updated_at row'"
proof (cases "find (\<lambda>i. q_id i = client_id v) items")
  case None
  then show ?thesis using assms by (simp add: reconcile_def)
next
  case (Some item)
  show ?thesis
  proof (cases "status v = ''success''")
    case True
    then show ?thesis using assms Some
      by (auto simp: reconcile_def tasks_delete_queue tasks_updateSyncStatus)
  next
    case notsucc: False
    show ?thesis
    proof (cases "status v = ''conflict''")
      case False
      then show ?thesis using assms Some notsucc
        by (auto simp: reconcile_def fail_item_fields tasks_handleSyncError)
    next
      case True
      show ?thesis
      proof (cases "getTask (store p) (q_task_id item)")
        case None
        then show ?thesis using assms Some notsucc True
          by (auto simp: reconcile_def fail_item_fields tasks_handleSyncError)
      next
        case (Some local)
        note loc = this
        from getTask_SomeD [OF this] obtain lrow where
          lrow: "tasks (store p) (q_task_id item) = Some lrow" "local = rowToTask (q_task_id item) lrow"
          by blast
        show ?thesis
        proof (cases "resolved_data v")
          case None
          then show ?thesis using assms \<open>find _ items = Some item\<close> notsucc True loc
            by (auto simp: reconcile_def fail_item_fields tasks_handleSyncError)
        next
          case (Some sv)
          have ge: "r_updated_at lrow \<le> updated_at (resolveConflict local sv)"
            using resolveConflict_ge [of local sv] lrow(2) by (simp add: rowToTask_def)
          have tl: "tid local = q_task_id item" using lrow(2) by (simp add: rowToTask_def)
          show ?thesis using assms \<open>find _ items = Some item\<close> notsucc True loc Some ge lrow(1) tl
            by (auto simp: reconcile_def resolve_and_write_def Let_def tasks_delete_queue
                  tasks_write_winner)
        qed
      qed
    qed
  qed
qed

lemma foldl_reconcile_mono:
  "tasks (store p) k = Some row \<Longrightarrow>
     \<exists>row'. tasks (store (foldl (reconcile clock items) p vs)) k = Some row' \<and>
            r_updated_at row \<le> r_updated_at row'"
proof (induction vs arbitrary: p row)
  case Nil
  then show ?case by simp
next
  case (Cons v vs)
  from reconcile_mono [OF Cons.prems] obtain r1 where
    r1: "tasks (store (reconcile clock items p v)) k = Some r1" "r_updated_at row \<le> r_updated_at r1"
    by blast
  from Cons.IH [OF r1(1)] obtain r2 where
    "tasks (store (foldl (reconcile clock items) (reconcile clock items p v) vs)) k = Some r2"
    "r_updated_at r1 \<le> r_updated_at r2" by blast
  with r1(2) show ?case by auto
qed

lemma fail_batch_updated_at:
  "map_option r_updated_at (tasks (fail_batch clock msg k items s) j)
     = map_option r_updated_at (tasks s j)"
  by (induction items arbitrary: k s) (simp_all add: updated_at_handleSyncError)

lemma sync_mono:
  assumes "tasks s k = Some row"
  shows "\<exists>row'. tasks (fst (sync n clock health reply s)) k = Some row' \<and>
                r_updated_at row \<le> r_updated_at row'"
proof (cases reply)
  case (Inl msg)
  have "map_option r_updated_at (tasks (fail_batch clock msg 1 (select_batch n s) s) k)
          = Some (r_updated_at row)"
    using assms by (simp add: fail_batch_updated_at)
  then obtain row' where "tasks (fail_batch clock msg 1 (select_batch n s) s) k = Some row'"
    "r_updated_at row' = r_updated_at row" by auto
  then show ?thesis using assms Inl by (auto simp: sync_def Let_def)
next
  case (Inr vs)
  have "\<exists>row'. tasks (store (foldl (reconcile clock (select_batch n s))
           \<lparr>store = s, reads = 1, synced = 0, failed = 0, errs = []\<rparr> vs)) k = Some row' \<and>
                r_updated_at row \<le> r_updated_at row'"
    by (rule foldl_reconcile_mono) (simp add: assms)
  then show ?thesis using assms Inr by (auto simp: sync_def Let_def)
qed

section \<open>One verdict, in the loop and in the pass\<close>

lemma reconcile_success_step:
  assumes "find (\<lambda>i. q_id i = client_id v) items = Some item"
    and "status v = ''success''"
  shows "(\<forall>k. tasks (store (reconcile clock items p v)) k =
            (if k = q_task_id item
             then map_option
                    (\<lambda>row. row\<lparr>r_sync_status := Synced,
                               r_last_synced_at := Some (clock (reads p)),
                               r_server_id := (case verdict_server_id v of
                                                 None \<Rightarrow> r_server_id row
                                               | Some sid \<Rightarrow> Some sid)\<rparr>)
                    (tasks (store p) k)
             else tasks (store p) k)) \<and>
         sync_queue (store (reconcile clock items p v)) =
           filter (\<lambda>r. q_id r \<noteq> q_id item) (sync_queue (store p)) \<and>
         item \<notin> set (sync_queue (store (reconcile clock items p v))) \<and>
         synced (reconcile clock items p v) = synced p + 1 \<and>
         failed (reconcile clock items p v) = failed p \<and>
         errs (reconcile clock items p v) = errs p"
  by (simp add: reconcile_success_eq [OF assms] tasks_delete_queue tasks_updateSyncStatus
        sync_queue_delete_queue sync_queue_updateSyncStatus)

lemma reconcile_unresolved_step:
  assumes "find (\<lambda>i. q_id i = client_id v) items = Some item"
    and "status v = ''conflict''"
    and "tasks (store p) (q_task_id item) = None \<or>
         (\<exists>row. tasks (store p) (q_task_id item) = Some row \<and> r_is_deleted row) \<or>
         resolved_data v = None"
  shows "sync_queue (store (reconcile clock items p v)) =
           map (\<lambda>r. if q_id r = q_id item
                     then r\<lparr>q_retry_count := q_retry_count r + 1,
                            q_error_message := Some ''Conflict unresolved''\<rparr>
                     else r) (sync_queue (store p)) \<and>
         (item \<in> set (sync_queue (store p)) \<longrightarrow>
            item\<lparr>q_retry_count := q_retry_count item + 1,
                 q_error_message := Some ''Conflict unresolved''\<rparr>
              \<in> set (sync_queue (store (reconcile clock items p v)))) \<and>
         (\<forall>k. tasks (store (reconcile clock items p v)) k =
            (if k = q_task_id item
             then map_option
                    (\<lambda>row. row\<lparr>r_sync_status := Error,
                               r_last_synced_at := Some (clock (reads p))\<rparr>)
                    (tasks (store p) k)
             else tasks (store p) k)) \<and>
         failed (reconcile clock items p v) = failed p + 1 \<and>
         synced (reconcile clock items p v) = synced p \<and>
         errs (reconcile clock items p v) = errs p @
           [\<lparr>e_task_id = q_task_id item, e_operation = q_operation item,
             e_error = ''Conflict unresolved'', e_timestamp = clock (reads p + 1)\<rparr>]"
proof -
  from assms(3) have "getTask (store p) (q_task_id item) = None \<or> resolved_data v = None"
    by (auto simp: getTask_None_iff)
  note eq = reconcile_conflict_unresolved [OF assms(1,2) this]
  have q: "sync_queue (store (reconcile clock items p v)) =
           map (\<lambda>r. if q_id r = q_id item
                     then r\<lparr>q_retry_count := q_retry_count r + 1,
                            q_error_message := Some ''Conflict unresolved''\<rparr>
                     else r) (sync_queue (store p))"
    by (simp add: eq fail_item_fields sync_queue_handleSyncError bump_retry_def [abs_def])
  have "item\<lparr>q_retry_count := q_retry_count item + 1,
                 q_error_message := Some ''Conflict unresolved''\<rparr>
              \<in> set (sync_queue (store (reconcile clock items p v)))"
    if "item \<in> set (sync_queue (store p))"
    unfolding q using that by (auto simp: image_iff intro!: bexI [of _ item])
  with q show ?thesis
    by (simp add: eq fail_item_fields tasks_handleSyncError)
qed

lemma find_Some_nonempty: "find P xs = Some x \<Longrightarrow> xs \<noteq> []"
  by (cases xs) simp_all

lemma sync_verdicts:
  assumes "checkConnectivity health" and "select_batch n s \<noteq> []"
  shows "sync n clock health (Inr vs) s =
           (store (verdict_loop n clock s vs),
            \<lparr>success = (failed (verdict_loop n clock s vs) = 0),
             synced_items = synced (verdict_loop n clock s vs),
             failed_items = failed (verdict_loop n clock s vs),
             errors = errs (verdict_loop n clock s vs)\<rparr>)"
  using assms by (simp add: sync_def verdict_loop_def Let_def)

lemma verdict_loop_snoc:
  "verdict_loop n clock s (vs @ [v]) =
     reconcile clock (select_batch n s) (verdict_loop n clock s vs) v"
  by (simp add: verdict_loop_def)

lemma resolve_and_write_updated_at:
  assumes "tasks (store p) (tid local) = Some row1"
  shows "\<exists>row'. tasks (store (resolve_and_write item local sv sid p)) (tid local) = Some row' \<and>
           r_updated_at row' = max (updated_at local) (updated_at sv)"
  using assms
  by (auto simp: resolve_and_write_def Let_def tasks_delete_queue tasks_write_winner
        resolveConflict_def max_def)

section \<open>Queue ids\<close>

lemma bump_retry_ids [simp]:
  "q_id (bump_retry q msg r) = q_id r" "q_task_id (bump_retry q msg r) = q_task_id r"
  by (simp_all add: bump_retry_def)

lemma ids_ok_handleSyncError: "ids_ok s \<Longrightarrow> ids_ok (handleSyncError now item msg s)"
  by (simp add: ids_ok_def sync_queue_handleSyncError)

lemma ids_ok_reconcile: "ids_ok (store p) \<Longrightarrow> ids_ok (store (reconcile clock items p v))"
  by (auto simp: ids_ok_def reconcile_def resolve_and_write_def Let_def fail_item_fields
        sync_queue_handleSyncError
        sync_queue_delete_queue sync_queue_updateSyncStatus sync_queue_write_winner
        split: option.splits)

lemma ids_ok_foldl:
  "ids_ok (store p) \<Longrightarrow> ids_ok (store (foldl (reconcile clock items) p vs))"
  by (induction vs arbitrary: p) (simp_all add: ids_ok_reconcile)

lemma ids_ok_fail_batch: "ids_ok s \<Longrightarrow> ids_ok (fail_batch clock msg k items s)"
  by (induction items arbitrary: k s) (simp_all add: ids_ok_handleSyncError)

lemma ids_ok_sync: "ids_ok s \<Longrightarrow> ids_ok (fst (sync n clock health reply s))"
  by (cases reply) (simp_all add: sync_def Let_def ids_ok_fail_batch ids_ok_foldl)

lemma ids_ok_addToSyncQueue:
  "ids_ok s \<Longrightarrow> addToSyncQueue uq now i op d s = Inr s' \<Longrightarrow> ids_ok s'"
  using addToSyncQueue_Inr(2) [of uq now i op d s s'] by (simp add: ids_ok_def)

lemma ids_ok_createTask: "ids_ok s \<Longrightarrow> ids_ok (fst (createTask uq clock uid d s))"
  by (auto simp: ids_ok_def createTask_def Let_def insert_task_def addToSyncQueue_def
        insert_queue_def split: option.splits)

lemma ids_ok_updateTask: "ids_ok s \<Longrightarrow> ids_ok (fst (updateTask uq clock i u s))"
  by (auto simp: ids_ok_def updateTask_def Let_def addToSyncQueue_def insert_queue_def
        sync_queue_update_task split: option.splits)

lemma ids_ok_deleteTask: "ids_ok s \<Longrightarrow> ids_ok (fst (deleteTask uq clock i s))"
  by (auto simp: ids_ok_def deleteTask_def Let_def addToSyncQueue_def insert_queue_def
        sync_queue_update_task split: option.splits)

lemma ids_ok_reachable: "reachable uq s \<Longrightarrow> ids_ok s"
proof (induction rule: reachable.induct)
  case (init uq)
  show ?case by (simp add: ids_ok_def)
next
  case (enqueue uq s now i op d s')
  then show ?case by (simp add: ids_ok_addToSyncQueue)
next
  case (create uq s clock uid d s' r)
  then show ?case using ids_ok_createTask [of s uq clock uid d] by simp
next
  case (update uq s clock i u s' r)
  then show ?case using ids_ok_updateTask [of s uq clock i u] by simp
next
  case (delete uq s clock i s' r)
  then show ?case using ids_ok_deleteTask [of s uq clock i] by simp
next
  case (sync uq s n clock health reply s' res)
  then show ?case using ids_ok_sync [of s n clock health reply] by simp
qed

















section \<open>The scenario, step by step\<close>

lemma scenario_create:
  "createTask uq clock_a ''A'' data_milk db_empty = (db_created, Inr task_created)"
  by (simp add: op_defs scenario_defs)

lemma scenario_update:
  "updateTask False clock_b ''A'' upd_done db_created = (db_updated, Inr (Some task_updated))"
  by (simp add: op_defs scenario_defs)

lemma scenario_update_refused:
  "updateTask True clock_b ''A'' upd_done db_created = (db_unqueued, Inl ConstraintViolation)"
  by (simp add: op_defs scenario_defs)

lemma scenario_batch: "select_batch 50 db_updated = [entry_create, entry_update]"
  by (simp add: select_batch_def scenario_defs)

lemma scenario_accept:
  "sync 50 clock_b Ok2xx (Inr [verdict_accept]) db_created =
     (\<lparr>tasks = [''A'' \<mapsto> row_synced], sync_queue = []\<rparr>,
      \<lparr>success = True, synced_items = 1, failed_items = 0, errors = []\<rparr>)"
  by (simp add: sync_defs scenario_defs)

lemma scenario_conflict:
  "sync 50 clock_b Ok2xx (Inr [verdict_conflict]) db_created =
     (db_resolved, \<lparr>success = True, synced_items = 1, failed_items = 0, errors = []\<rparr>)"
  by (simp add: sync_defs scenario_defs)

lemma scenario_delete: "deleteTask False clock_c ''A'' db_updated = (db_deleted, Inr True)"
  by (simp add: op_defs scenario_defs)


lemma scenario_tomb: "deleteTask True clock_c ''A'' db_resolved = (db_tomb, Inr True)"
  by (simp add: op_defs scenario_defs)

text \<open>
  Where the table accepts two rows under one id, the two entries of task \<open>''A''\<close>
  share the id \<open>''A''\<close>, and a failed batch counts each of them twice: once for its
  own \<^verbatim>\<open>handleSyncError\<close> and once for the other's.
\<close>

lemma shared_id_counted_once_per_item:
  "updateTask False clock_b ''A'' upd_done db_created = (db_updated, Inr (Some task_updated)) \<and>
   map q_retry_count (sync_queue db_updated) = [0, 0] \<and>
   map q_retry_count
     (sync_queue (fst (sync 50 clock_c Ok2xx (Inl ''Network Error'') db_updated))) = [2, 2] \<and>
   failed_items (snd (sync 50 clock_c Ok2xx (Inl ''Network Error'') db_updated)) = 2"
  by (simp add: scenario_update) (simp add: sync_defs scenario_defs)

section \<open>The claims\<close>

text \<open>
  C1. Conflict resolution is last-write-wins on \<^verbatim>\<open>updated_at\<close>: for a local
  snapshot with timestamp \<open>T1\<close> and a server snapshot with timestamp \<open>T2\<close>,
  \<open>resolveConflict\<close> returns the server snapshot, whole, when \<open>T2 > T1\<close>, and the
  local snapshot, whole, otherwise (a tie included). The result is always one of the
  two snapshots, never a mixture of their fields; for two different snapshots it is the
  server's exactly when \<open>T2 > T1\<close>.
\<close>

theorem resolveConflict_last_write_wins:
  "(updated_at l < updated_at sv \<longrightarrow> resolveConflict l sv = sv) \<and>
   (\<not> updated_at l < updated_at sv \<longrightarrow> resolveConflict l sv = l) \<and>
   (l \<noteq> sv \<longrightarrow> (resolveConflict l sv = sv) = (updated_at l < updated_at sv))"
  by (auto simp: resolveConflict_def Let_def)

theorem resolveConflict_last_write_wins_witness:
  "resolveConflict task_created task_server = task_server \<and>
   resolveConflict task_server task_created = task_server \<and>
   resolveConflict task_created (task_updated\<lparr>updated_at := 100\<rparr>) = task_created"
  using resolveConflict_last_write_wins [of task_created task_server]
    resolveConflict_last_write_wins [of task_server task_created]
    resolveConflict_last_write_wins [of task_created "task_updated\<lparr>updated_at := 100\<rparr>"]
  by (simp add: scenario_defs)

text \<open>
  C2. The claim: every mutation appends a queue entry of its own identity, several
  entries of one task live side by side, and each verdict is matched to its entry by
  that identity, so that the entries are resolved one by one. The code gives every
  entry the id of its task. In the scenario, task \<open>''A''\<close> is created and then
  updated before any pass. Where the table refuses a second row under one id, the
  update writes the task row and then raises: no second entry is appended. Where the
  table accepts it, the queue holds two entries, both with id \<open>''A''\<close>; the remote
  service accepts the first and rejects the second; the pass matches both verdicts to
  the \<^verbatim>\<open>create\<close> entry, the acceptance deletes both entries, and the rejection
  finds no row to mark. The queue ends empty, the rejected update is never retried, and
  the error record names the operation \<^verbatim>\<open>create\<close>.
\<close>

theorem shared_queue_id_merges_entries:
  "createTask True clock_a ''A'' data_milk db_empty = (db_created, Inr task_created) \<and>
   updateTask True clock_b ''A'' upd_done db_created = (db_unqueued, Inl ConstraintViolation) \<and>
   tasks db_unqueued ''A'' = Some row_updated \<and>
   sync_queue db_unqueued = [entry_create] \<and>
   createTask False clock_a ''A'' data_milk db_empty = (db_created, Inr task_created) \<and>
   updateTask False clock_b ''A'' upd_done db_created = (db_updated, Inr (Some task_updated)) \<and>
   map q_id (sync_queue db_updated) = [''A'', ''A''] \<and>
   map q_operation (sync_queue db_updated) = [Create, Update] \<and>
   sync_queue (fst (sync 50 clock_c Ok2xx (Inr [verdict_accept, verdict_reject]) db_updated)) = [] \<and>
   snd (sync 50 clock_c Ok2xx (Inr [verdict_accept, verdict_reject]) db_updated) =
     \<lparr>success = False, synced_items = 1, failed_items = 1,
      errors = [\<lparr>e_task_id = ''A'', e_operation = Create, e_error = ''rejected'',
                 e_timestamp = 303\<rparr>]\<rparr>"
  by (simp add: scenario_create scenario_update scenario_update_refused)
     (simp add: sync_defs scenario_defs)

text \<open>
  C3. The claim, \<open>success\<close> exactly when \<open>failed_items = 0\<close> for every pass, fails
  for a pass whose liveness probe fails: it reports \<open>success = False\<close> with
  \<open>failed_items = 0\<close>. As amended: when the probe succeeds, \<open>success\<close> holds exactly
  when \<open>failed_items = 0\<close>; when the probe fails, \<open>success\<close> is false and
  \<open>failed_items\<close> is \<open>0\<close>.
\<close>

theorem sync_success_iff_no_failure_when_online:
  "(checkConnectivity health \<longrightarrow>
      success (snd (sync n clock health reply s))
        = (failed_items (snd (sync n clock health reply s)) = 0)) \<and>
   (\<not> checkConnectivity health \<longrightarrow>
      \<not> success (snd (sync n clock health reply s)) \<and>
      failed_items (snd (sync n clock health reply s)) = 0)"
  by (cases reply) (simp_all add: sync_def Let_def)

theorem sync_success_iff_no_failure_when_online_witness:
  "success (snd (sync 50 clock_c Ok2xx (Inr [verdict_accept, verdict_reject]) db_updated)) = False \<and>
   failed_items (snd (sync 50 clock_c Ok2xx (Inr [verdict_accept, verdict_reject]) db_updated)) = 1 \<and>
   success (snd (sync 50 clock_b Ok2xx (Inr [verdict_accept]) db_created)) = True \<and>
   failed_items (snd (sync 50 clock_b Ok2xx (Inr [verdict_accept]) db_created)) = 0 \<and>
   failed_items (snd (sync 50 clock_b Timeout (Inr [verdict_accept]) db_created)) = 0"
proof -
  have on: "checkConnectivity Ok2xx" by (simp add: checkConnectivity_def)
  have off: "\<not> checkConnectivity Timeout" by (simp add: checkConnectivity_def)
  have f1: "failed_items (snd (sync 50 clock_c Ok2xx (Inr [verdict_accept, verdict_reject]) db_updated)) = 1"
    by (simp add: sync_defs scenario_defs)
  have f0: "failed_items (snd (sync 50 clock_b Ok2xx (Inr [verdict_accept]) db_created)) = 0"
    by (simp add: sync_defs scenario_defs)
  from sync_success_iff_no_failure_when_online
         [of Ok2xx 50 clock_c "Inr [verdict_accept, verdict_reject]" db_updated]
    sync_success_iff_no_failure_when_online [of Ok2xx 50 clock_b "Inr [verdict_accept]" db_created]
    sync_success_iff_no_failure_when_online [of Timeout 50 clock_b "Inr [verdict_accept]" db_created]
    on off f1 f0
  show ?thesis by simp
qed

theorem offline_pass_not_success_without_failures:
  "\<not> (success (snd (sync 50 clock_c Timeout (Inr [verdict_accept]) db_updated))
        = (failed_items (snd (sync 50 clock_c Timeout (Inr [verdict_accept]) db_updated)) = 0))"
  by (simp add: sync_def checkConnectivity_def)

text \<open>
  C4. When the liveness probe does not answer with a 2xx status (another status, a
  network error or a timeout), \<open>sync\<close> returns \<open>success = False\<close>,
  \<open>synced_items = 0\<close>, \<open>failed_items = 0\<close> and no errors, and the store it leaves is
  the store it found: the same task rows and the same queue, entry for entry.
\<close>

theorem sync_offline_leaves_store:
  "health \<noteq> Ok2xx \<Longrightarrow>
     sync n clock health reply s =
       (s, \<lparr>success = False, synced_items = 0, failed_items = 0, errors = []\<rparr>)"
  by (cases health) (simp_all add: sync_def checkConnectivity_def)

theorem sync_offline_leaves_store_witness:
  "sync 50 clock_c Timeout (Inr [verdict_accept]) db_updated =
     (db_updated, \<lparr>success = False, synced_items = 0, failed_items = 0, errors = []\<rparr>) \<and>
   sync 50 clock_c NetworkError (Inl ''unreachable'') db_updated =
     (db_updated, \<lparr>success = False, synced_items = 0, failed_items = 0, errors = []\<rparr>)"
proof -
  have a: "Timeout \<noteq> Ok2xx" by simp
  have b: "NetworkError \<noteq> Ok2xx" by simp
  from sync_offline_leaves_store [OF a] sync_offline_leaves_store [OF b]
  show ?thesis by simp
qed



text \<open>
  C6. A pass of \<open>sync\<close> whose reply ends with a verdict of status \<^verbatim>\<open>success\<close>
  that is matched to an item of the batch, against the pass on the reply without that
  verdict: the row of the owning task (if there is one) gets \<open>sync_status = Synced\<close>,
  a reading of the clock as \<open>last_synced_at\<close>, and the verdict's server id when the
  verdict has one, its own server id otherwise; no other task row differs. Every queue
  row with the item's id is deleted, so the item is no longer in the queue.
  \<open>synced_items\<close> of the result is one higher; \<open>failed_items\<close>, \<open>errors\<close> and
  \<open>success\<close> are the same. Since the reply before the verdict is any list of
  verdicts, this is what \<open>sync\<close> does for every such verdict of a reply.
\<close>

theorem sync_applies_success_verdict:
  assumes "checkConnectivity health"
    and "find (\<lambda>i. q_id i = client_id v) (select_batch n s) = Some item"
    and "status v = ''success''"
  shows "(\<forall>k. tasks (fst (sync n clock health (Inr (vs @ [v])) s)) k =
            (if k = q_task_id item
             then map_option
                    (\<lambda>row. row\<lparr>r_sync_status := Synced,
                               r_last_synced_at :=
                                 Some (clock (reads (verdict_loop n clock s vs))),
                               r_server_id := (case verdict_server_id v of
                                                 None \<Rightarrow> r_server_id row
                                               | Some sid \<Rightarrow> Some sid)\<rparr>)
                    (tasks (fst (sync n clock health (Inr vs) s)) k)
             else tasks (fst (sync n clock health (Inr vs) s)) k)) \<and>
         sync_queue (fst (sync n clock health (Inr (vs @ [v])) s)) =
           filter (\<lambda>r. q_id r \<noteq> q_id item)
             (sync_queue (fst (sync n clock health (Inr vs) s))) \<and>
         item \<notin> set (sync_queue (fst (sync n clock health (Inr (vs @ [v])) s))) \<and>
         synced_items (snd (sync n clock health (Inr (vs @ [v])) s)) =
           synced_items (snd (sync n clock health (Inr vs) s)) + 1 \<and>
         failed_items (snd (sync n clock health (Inr (vs @ [v])) s)) =
           failed_items (snd (sync n clock health (Inr vs) s)) \<and>
         errors (snd (sync n clock health (Inr (vs @ [v])) s)) =
           errors (snd (sync n clock health (Inr vs) s)) \<and>
         success (snd (sync n clock health (Inr (vs @ [v])) s)) =
           success (snd (sync n clock health (Inr vs) s))"
proof -
  from assms(2) have ne: "select_batch n s \<noteq> []" by (rule find_Some_nonempty)
  note step = reconcile_success_step [OF assms(2,3), of clock "verdict_loop n clock s vs"]
  show ?thesis
    unfolding sync_verdicts [OF assms(1) ne] verdict_loop_snoc
    using step by simp
qed

theorem sync_applies_success_verdict_witness:
  "sync_queue (fst (sync 50 clock_b Ok2xx (Inr [verdict_accept]) db_created)) = [] \<and>
   tasks (fst (sync 50 clock_b Ok2xx (Inr [verdict_accept]) db_created)) ''A''
     = Some row_synced \<and>
   snd (sync 50 clock_b Ok2xx (Inr [verdict_accept]) db_created) =
     \<lparr>success = True, synced_items = 1, failed_items = 0, errors = []\<rparr> \<and>
   sync_queue (fst (sync 50 clock_b Ok2xx (Inr [verdict_unresolved, verdict_accept]) db_created))
     = [] \<and>
   synced_items (snd (sync 50 clock_b Ok2xx (Inr [verdict_unresolved, verdict_accept]) db_created))
     = 1 \<and>
   failed_items (snd (sync 50 clock_b Ok2xx (Inr [verdict_unresolved, verdict_accept]) db_created))
     = 1"
proof -
  have c: "checkConnectivity Ok2xx" by (simp add: checkConnectivity_def)
  have h1: "find (\<lambda>i. q_id i = client_id verdict_accept) (select_batch 50 db_created)
              = Some entry_create"
    by (simp add: select_batch_def scenario_defs)
  have h2: "status verdict_accept = ''success''" by (simp add: scenario_defs)
  from sync_applies_success_verdict [OF c h1 h2, of clock_b "[]"]
    sync_applies_success_verdict [OF c h1 h2, of clock_b "[verdict_unresolved]"]
  show ?thesis by (simp add: sync_defs verdict_loop_def scenario_defs)
qed

text \<open>
  C7. A \<open>createTask\<close> that succeeds stores the row of the task it returns, with
  \<open>sync_status = Pending\<close>, and appends one queue entry for it: operation
  \<^verbatim>\<open>create\<close>, the snapshot of the task, retry count \<open>0\<close>. An \<open>updateTask\<close> that
  returns a task writes that task's fields over the row, with \<open>sync_status = Pending\<close>,
  and appends one \<^verbatim>\<open>update\<close> entry with retry count \<open>0\<close>. A \<open>deleteTask\<close> that
  returns true marks the row deleted and pending and appends one \<^verbatim>\<open>delete\<close> entry
  with retry count \<open>0\<close>. On an id with no row, \<open>updateTask\<close> returns no task,
  \<open>deleteTask\<close> returns false, and neither changes the store.
\<close>

theorem task_mutations_enqueue_once:
  "(createTask uq clock uid d s = (s', Inr t) \<longrightarrow>
      tid t = uid \<and> sync_status t = Pending \<and>
      tasks s' = (tasks s)(uid \<mapsto>
           \<lparr>r_title = title t, r_description = description t, r_completed = completed t,
            r_is_deleted = is_deleted t, r_created_at = created_at t,
            r_updated_at = updated_at t, r_sync_status = Pending,
            r_server_id = server_id t, r_last_synced_at = None\<rparr>) \<and>
      sync_queue s' = sync_queue s @
           [\<lparr>q_id = uid, q_task_id = uid, q_operation = Create,
             q_data = snapshot uid (title t) (description t) (completed t) (updated_at t)
                        (created_at t) (is_deleted t) (server_id t),
             q_created_at = clock 1, q_retry_count = 0, q_error_message = None\<rparr>]) \<and>
   (updateTask uq clock i u s = (s', Inr (Some t)) \<longrightarrow>
      sync_status t = Pending \<and>
      (\<exists>row. tasks s i = Some row \<and>
           tasks s' = (tasks s)(i \<mapsto>
              row\<lparr>r_title := title t, r_description := description t,
                  r_completed := completed t, r_is_deleted := is_deleted t,
                  r_updated_at := updated_at t, r_sync_status := Pending,
                  r_server_id := server_id t\<rparr>)) \<and>
      sync_queue s' = sync_queue s @
           [\<lparr>q_id = i, q_task_id = i, q_operation = Update,
             q_data = snapshot (tid t) (title t) (description t) (completed t) (updated_at t)
                        (created_at t) (is_deleted t) (server_id t),
             q_created_at = clock 1, q_retry_count = 0, q_error_message = None\<rparr>]) \<and>
   (deleteTask uq clock i s = (s', Inr True) \<longrightarrow>
      (\<exists>row. tasks s i = Some row \<and>
           tasks s' = (tasks s)(i \<mapsto>
              row\<lparr>r_is_deleted := True, r_updated_at := clock 0, r_sync_status := Pending\<rparr>) \<and>
           sync_queue s' = sync_queue s @
             [\<lparr>q_id = i, q_task_id = i, q_operation = Delete,
               q_data = snapshot i (r_title row) (r_description row) (r_completed row)
                          (clock 0) (r_created_at row) True (r_server_id row),
               q_created_at = clock 1, q_retry_count = 0, q_error_message = None\<rparr>])) \<and>
   (tasks s i = None \<longrightarrow>
      updateTask uq clock i u s = (s, Inr None) \<and> deleteTask uq clock i s = (s, Inr False))"
proof (intro conjI impI)
  assume c: "createTask uq clock uid d s = (s', Inr t)"
  from createTask_Inr(2) [OF c] show "tid t = uid" by simp
  from createTask_Inr(2) [OF c] show "sync_status t = Pending" by simp
  from createTask_Inr(2,3) [OF c] show "tasks s' = (tasks s)(uid \<mapsto>
           \<lparr>r_title = title t, r_description = description t, r_completed = completed t,
            r_is_deleted = is_deleted t, r_created_at = created_at t,
            r_updated_at = updated_at t, r_sync_status = Pending,
            r_server_id = server_id t, r_last_synced_at = None\<rparr>)" by simp
  from createTask_Inr(4) [OF c] show "sync_queue s' = sync_queue s @
           [\<lparr>q_id = uid, q_task_id = uid, q_operation = Create,
             q_data = snapshot uid (title t) (description t) (completed t) (updated_at t)
                        (created_at t) (is_deleted t) (server_id t),
             q_created_at = clock 1, q_retry_count = 0, q_error_message = None\<rparr>]" .
next
  assume u: "updateTask uq clock i u s = (s', Inr (Some t))"
  from updateTask_Some(2) [OF u] show "sync_status t = Pending" .
  from updateTask_Some(1,2) [OF u] show "\<exists>row. tasks s i = Some row \<and>
           tasks s' = (tasks s)(i \<mapsto>
              row\<lparr>r_title := title t, r_description := description t,
                  r_completed := completed t, r_is_deleted := is_deleted t,
                  r_updated_at := updated_at t, r_sync_status := Pending,
                  r_server_id := server_id t\<rparr>)" by simp
  from updateTask_Some(4) [OF u] show "sync_queue s' = sync_queue s @
           [\<lparr>q_id = i, q_task_id = i, q_operation = Update,
             q_data = snapshot (tid t) (title t) (description t) (completed t) (updated_at t)
                        (created_at t) (is_deleted t) (server_id t),
             q_created_at = clock 1, q_retry_count = 0, q_error_message = None\<rparr>]" .
next
  assume "deleteTask uq clock i s = (s', Inr True)"
  from deleteTask_True [OF this] show "\<exists>row. tasks s i = Some row \<and>
           tasks s' = (tasks s)(i \<mapsto>
              row\<lparr>r_is_deleted := True, r_updated_at := clock 0, r_sync_status := Pending\<rparr>) \<and>
           sync_queue s' = sync_queue s @
             [\<lparr>q_id = i, q_task_id = i, q_operation = Delete,
               q_data = snapshot i (r_title row) (r_description row) (r_completed row)
                          (clock 0) (r_created_at row) True (r_server_id row),
               q_created_at = clock 1, q_retry_count = 0, q_error_message = None\<rparr>]" .
next
  assume "tasks s i = None"
  then show "updateTask uq clock i u s = (s, Inr None)" by (rule updateTask_missing)
next
  assume "tasks s i = None"
  then show "deleteTask uq clock i s = (s, Inr False)" by (rule deleteTask_missing)
qed

theorem task_mutations_enqueue_once_witness:
  "createTask True clock_a ''A'' data_milk db_empty = (db_created, Inr task_created) \<and>
   sync_queue db_created = sync_queue db_empty @ [entry_create] \<and>
   updateTask False clock_b ''A'' upd_done db_created = (db_updated, Inr (Some task_updated)) \<and>
   sync_queue db_updated = sync_queue db_created @ [entry_update] \<and>
   deleteTask False clock_c ''A'' db_updated = (db_deleted, Inr True) \<and>
   sync_queue db_deleted = sync_queue db_updated @ [entry_delete] \<and>
   updateTask True clock_a ''A'' upd_done db_empty = (db_empty, Inr None) \<and>
   deleteTask True clock_a ''A'' db_empty = (db_empty, Inr False)"
proof -
  have n: "tasks db_empty ''A'' = None" by (simp add: scenario_defs)
  from task_mutations_enqueue_once
         [where uq = True and clock = clock_a and uid = "''A''" and d = data_milk
            and s = db_empty and s' = db_created and t = task_created and i = "''A''"
            and u = upd_done]
    task_mutations_enqueue_once
         [where uq = False and clock = clock_b and s = db_created and s' = db_updated
            and t = task_updated and i = "''A''" and u = upd_done]
    task_mutations_enqueue_once
         [where uq = False and clock = clock_c and s = db_updated and s' = db_deleted
            and i = "''A''"]
    scenario_create [of True] scenario_update scenario_delete n
  show ?thesis by (simp add: scenario_defs)
qed

text \<open>
  C8. A pass of \<open>sync\<close> whose reply ends with a verdict of status \<^verbatim>\<open>conflict\<close>
  that is matched to an item of the batch, when at that point the local task cannot be
  loaded (no row, or a soft-deleted one) or the verdict carries no resolved snapshot,
  against the pass on the reply without that verdict: no queue row is removed; every
  queue row with the item's id has its retry count raised by exactly one and its error
  message set to \<open>''Conflict unresolved''\<close>, and no other queue row differs, so the
  item, if still queued, stays queued with its count one higher; the row of the owning
  task (if there is one) gets \<open>sync_status = Error\<close>; \<open>failed_items\<close> is one
  higher, \<open>synced_items\<close> is the same, \<open>errors\<close> has one more record, for the
  item, at its end, and \<open>success\<close> is false. Since the reply before the verdict is
  any list of verdicts, this is what \<open>sync\<close> does for every such verdict of a reply:
  each one adds one to the count of the rows it is matched to, so two such verdicts
  matched to one id leave the count two higher.
\<close>

theorem sync_fails_unresolved_conflict:
  assumes "checkConnectivity health"
    and "find (\<lambda>i. q_id i = client_id v) (select_batch n s) = Some item"
    and "status v = ''conflict''"
    and "tasks (fst (sync n clock health (Inr vs) s)) (q_task_id item) = None \<or>
         (\<exists>row. tasks (fst (sync n clock health (Inr vs) s)) (q_task_id item) = Some row \<and>
                r_is_deleted row) \<or>
         resolved_data v = None"
  shows "sync_queue (fst (sync n clock health (Inr (vs @ [v])) s)) =
           map (\<lambda>r. if q_id r = q_id item
                     then r\<lparr>q_retry_count := q_retry_count r + 1,
                            q_error_message := Some ''Conflict unresolved''\<rparr>
                     else r) (sync_queue (fst (sync n clock health (Inr vs) s))) \<and>
         (item \<in> set (sync_queue (fst (sync n clock health (Inr vs) s))) \<longrightarrow>
            item\<lparr>q_retry_count := q_retry_count item + 1,
                 q_error_message := Some ''Conflict unresolved''\<rparr>
              \<in> set (sync_queue (fst (sync n clock health (Inr (vs @ [v])) s)))) \<and>
         (\<forall>k. tasks (fst (sync n clock health (Inr (vs @ [v])) s)) k =
            (if k = q_task_id item
             then map_option
                    (\<lambda>row. row\<lparr>r_sync_status := Error,
                               r_last_synced_at :=
                                 Some (clock (reads (verdict_loop n clock s vs)))\<rparr>)
                    (tasks (fst (sync n clock health (Inr vs) s)) k)
             else tasks (fst (sync n clock health (Inr vs) s)) k)) \<and>
         failed_items (snd (sync n clock health (Inr (vs @ [v])) s)) =
           failed_items (snd (sync n clock health (Inr vs) s)) + 1 \<and>
         synced_items (snd (sync n clock health (Inr (vs @ [v])) s)) =
           synced_items (snd (sync n clock health (Inr vs) s)) \<and>
         errors (snd (sync n clock health (Inr (vs @ [v])) s)) =
           errors (snd (sync n clock health (Inr vs) s)) @
             [\<lparr>e_task_id = q_task_id item, e_operation = q_operation item,
               e_error = ''Conflict unresolved'',
               e_timestamp = clock (reads (verdict_loop n clock s vs) + 1)\<rparr>] \<and>
         success (snd (sync n clock health (Inr (vs @ [v])) s)) = False"
proof -
  from assms(2) have ne: "select_batch n s \<noteq> []" by (rule find_Some_nonempty)
  from assms(4) have h: "tasks (store (verdict_loop n clock s vs)) (q_task_id item) = None \<or>
         (\<exists>row. tasks (store (verdict_loop n clock s vs)) (q_task_id item) = Some row \<and>
                r_is_deleted row) \<or>
         resolved_data v = None"
    by (simp add: sync_verdicts [OF assms(1) ne])
  note step = reconcile_unresolved_step [OF assms(2,3) h, of clock]
  show ?thesis
    unfolding sync_verdicts [OF assms(1) ne] verdict_loop_snoc
    using step by simp
qed

theorem sync_fails_unresolved_conflict_witness:
  "sync_queue (fst (sync 50 clock_b Ok2xx (Inr [verdict_unresolved]) db_created))
     = [entry_create_failed] \<and>
   tasks (fst (sync 50 clock_b Ok2xx (Inr [verdict_unresolved]) db_created)) ''A''
     = Some row_failed \<and>
   snd (sync 50 clock_b Ok2xx (Inr [verdict_unresolved]) db_created) =
     \<lparr>success = False, synced_items = 0, failed_items = 1,
      errors = [\<lparr>e_task_id = ''A'', e_operation = Create, e_error = ''Conflict unresolved'',
                 e_timestamp = 202\<rparr>]\<rparr> \<and>
   map q_retry_count
     (sync_queue (fst (sync 50 clock_b Ok2xx (Inr [verdict_unresolved, verdict_unresolved])
                         db_created))) = [2] \<and>
   failed_items (snd (sync 50 clock_b Ok2xx (Inr [verdict_unresolved, verdict_unresolved])
                        db_created)) = 2 \<and>
   deleteTask True clock_c ''A'' db_resolved = (db_tomb, Inr True) \<and>
   map q_retry_count (sync_queue (fst (sync 50 clock_d Ok2xx (Inr [verdict_conflict]) db_tomb)))
     = [1] \<and>
   map_option r_sync_status
     (tasks (fst (sync 50 clock_d Ok2xx (Inr [verdict_conflict]) db_tomb)) ''A'') = Some Error \<and>
   failed_items (snd (sync 50 clock_d Ok2xx (Inr [verdict_conflict]) db_tomb)) = 1"
proof -
  have c: "checkConnectivity Ok2xx" by (simp add: checkConnectivity_def)
  have h1: "find (\<lambda>i. q_id i = client_id verdict_unresolved) (select_batch 50 db_created)
              = Some entry_create"
    by (simp add: select_batch_def scenario_defs)
  have h2: "status verdict_unresolved = ''conflict''" by (simp add: scenario_defs)
  have h3: "tasks (fst (sync 50 clock_b Ok2xx (Inr vs) db_created)) (q_task_id entry_create)
              = None \<or>
            (\<exists>row. tasks (fst (sync 50 clock_b Ok2xx (Inr vs) db_created))
                     (q_task_id entry_create) = Some row \<and> r_is_deleted row) \<or>
            resolved_data verdict_unresolved = None" for vs
    by (simp add: scenario_defs)
  have g1: "find (\<lambda>i. q_id i = client_id verdict_conflict) (select_batch 50 db_tomb)
              = Some entry_tomb"
    by (simp add: select_batch_def scenario_defs)
  have g2: "status verdict_conflict = ''conflict''" by (simp add: scenario_defs)
  have g3: "tasks (fst (sync 50 clock_d Ok2xx (Inr []) db_tomb)) (q_task_id entry_tomb)
              = None \<or>
            (\<exists>row. tasks (fst (sync 50 clock_d Ok2xx (Inr []) db_tomb))
                     (q_task_id entry_tomb) = Some row \<and> r_is_deleted row) \<or>
            resolved_data verdict_conflict = None"
    by (simp add: sync_defs scenario_defs)
  from sync_fails_unresolved_conflict [OF c h1 h2 h3 [of "[]"]]
    sync_fails_unresolved_conflict [OF c h1 h2 h3 [of "[verdict_unresolved]"]]
    sync_fails_unresolved_conflict [OF c g1 g2 g3]
    scenario_tomb
  show ?thesis by (simp add: sync_defs verdict_loop_def scenario_defs)
qed

text \<open>
  C9. The claim, that no mutation ever stores an \<^verbatim>\<open>updated_at\<close> earlier than the
  one persisted, fails in two ways. \<open>updateTask\<close> and \<open>deleteTask\<close> store the
  reading of the local clock without looking at the row: after a conflict resolved in
  favour of a server snapshot stamped 1000, a local update made when the clock reads
  300 takes \<^verbatim>\<open>updated_at\<close> from 1000 back to 300. And the write-back of a resolved
  conflict compares the server's timestamp with the local one it read in an earlier
  statement: when the row read at 100 is updated at 200 before the write-back runs, a
  server snapshot stamped 150 is stored over the persisted 200. As amended: a pass of
  \<open>sync\<close> with which no task mutation is interleaved keeps every task row and never
  lowers its \<^verbatim>\<open>updated_at\<close>; whatever the store holds by then, the write-back
  stores the later of the server's timestamp and the local timestamp that was read;
  \<open>updateTask\<close> and \<open>deleteTask\<close> set the \<^verbatim>\<open>updated_at\<close> of the row they
  address to the clock reading of the call and leave the other rows' as they are;
  \<open>createTask\<close> leaves every existing row as it is.
\<close>

theorem updated_at_after_each_mutation:
  "(tasks s k = Some row \<longrightarrow>
     (\<exists>row'. tasks (fst (sync n clock health reply s)) k = Some row' \<and>
             r_updated_at row \<le> r_updated_at row') \<and>
     (\<exists>row'. tasks (fst (updateTask uq clock i u s)) k = Some row' \<and>
             r_updated_at row' = (if k = i then clock 0 else r_updated_at row)) \<and>
     (\<exists>row'. tasks (fst (deleteTask uq clock i s)) k = Some row' \<and>
             r_updated_at row' = (if k = i then clock 0 else r_updated_at row)) \<and>
     tasks (fst (createTask uq clock uid d s)) k = Some row) \<and>
   (tasks (store p) (tid local) = Some row1 \<longrightarrow>
     (\<exists>row'. tasks (store (resolve_and_write item local sv sid p)) (tid local) = Some row' \<and>
             r_updated_at row' = max (updated_at local) (updated_at sv)))"
  using sync_mono [of s k row n clock health reply]
    updateTask_updated_at [of s k row uq clock i u]
    deleteTask_updated_at [of s k row uq clock i]
    createTask_keeps_rows [of s k row uq clock uid d]
    resolve_and_write_updated_at [of p local row1 item sv sid]
  by blast

theorem updated_at_after_each_mutation_witness:
  "tasks db_created ''A'' = Some row_created \<and>
   tasks (fst (sync 50 clock_b Ok2xx (Inr [verdict_conflict]) db_created)) ''A''
     = Some row_resolved \<and>
   r_updated_at row_created \<le> r_updated_at row_resolved \<and>
   tasks (fst (updateTask False clock_b ''A'' upd_done db_created)) ''A'' = Some row_updated \<and>
   r_updated_at row_updated = clock_b 0 \<and>
   tasks (fst (createTask False clock_b ''B'' data_milk db_created)) ''A'' = Some row_created \<and>
   tasks (store (resolve_and_write entry_create task_created task_server_early (Some ''srv-1'')
                   pass_unqueued)) ''A'' = Some row_overwritten \<and>
   r_updated_at row_overwritten = max (updated_at task_created) (updated_at task_server_early)"
proof -
  have h: "tasks db_created ''A'' = Some row_created" by (simp add: scenario_defs)
  have g: "tasks (store pass_unqueued) (tid task_created) = Some row_updated"
    by (simp add: scenario_defs)
  from updated_at_after_each_mutation
         [where s = db_created and k = "''A''" and row = row_created and n = 50
            and clock = clock_b and health = Ok2xx
            and reply = "Inr [verdict_conflict]" and uq = False
            and i = "''A''" and u = upd_done and uid = "''B''" and d = data_milk
            and p = pass_unqueued and local = task_created and ?row1.0 = row_updated
            and item = entry_create and sv = task_server_early and sid = "Some ''srv-1''"]
    h g scenario_conflict scenario_update
  show ?thesis by (simp add: scenario_defs resolve_and_write_def sync_defs)
qed

theorem local_update_lowers_updated_at:
  "createTask False clock_a ''A'' data_milk db_empty = (db_created, Inr task_created) \<and>
   fst (sync 50 clock_b Ok2xx (Inr [verdict_conflict]) db_created) = db_resolved \<and>
   tasks db_resolved ''A'' = Some row_resolved \<and>
   tasks (fst (updateTask False clock_c ''A'' upd_done db_resolved)) ''A'' = Some row_reupdated \<and>
   tasks (fst (updateTask True clock_c ''A'' upd_done db_resolved)) ''A'' = Some row_reupdated \<and>
   r_updated_at row_reupdated < r_updated_at row_resolved \<and>
   getTask db_created ''A'' = Some task_created \<and>
   fst (updateTask True clock_b ''A'' upd_done db_created) = db_unqueued \<and>
   tasks db_unqueued ''A'' = Some row_updated \<and>
   tasks (store (resolve_and_write entry_create task_created task_server_early (Some ''srv-1'')
                   pass_unqueued)) ''A'' = Some row_overwritten \<and>
   r_updated_at row_overwritten < r_updated_at row_updated"
  by (simp add: scenario_create scenario_conflict scenario_update_refused)
     (simp add: op_defs sync_defs scenario_defs)

text \<open>
  C10. \<open>addToSyncQueue\<close> appends one row whose \<^verbatim>\<open>id\<close> and \<^verbatim>\<open>task_id\<close> columns
  both hold the id of the task, and in every store the operations can reach, each queue
  row has its \<^verbatim>\<open>id\<close> equal to its \<^verbatim>\<open>task_id\<close>: the identity a verdict is
  matched on is the identity of the task.
\<close>

theorem queue_id_is_task_id:
  "(reachable uq s \<longrightarrow> map q_id (sync_queue s) = map q_task_id (sync_queue s)) \<and>
   (addToSyncQueue uq now i op d s = Inr s' \<longrightarrow>
      map q_id (sync_queue s') = map q_id (sync_queue s) @ [i] \<and>
      map q_task_id (sync_queue s') = map q_task_id (sync_queue s) @ [i])"
  using ids_ok_reachable [of uq s] addToSyncQueue_Inr(2) [of uq now i op d s s']
  by (auto simp: ids_ok_def)

theorem queue_id_is_task_id_witness:
  "reachable False db_deleted \<and>
   map q_id (sync_queue db_deleted) = map q_task_id (sync_queue db_deleted) \<and>
   map q_id (sync_queue db_deleted) = [''A'', ''A'', ''A''] \<and>
   addToSyncQueue True 101 ''A'' Create (q_data entry_create)
     \<lparr>tasks = [''A'' \<mapsto> row_created], sync_queue = []\<rparr> = Inr db_created \<and>
   map q_id (sync_queue db_created) = [''A''] \<and>
   map q_task_id (sync_queue db_created) = [''A'']"
proof -
  have "reachable False db_empty" unfolding db_empty_def by (rule reachable.init)
  then have "reachable False db_created" using scenario_create by (rule reachable.create)
  then have "reachable False db_updated" using scenario_update by (rule reachable.update)
  then have r: "reachable False db_deleted" using scenario_delete by (rule reachable.delete)
  have e: "addToSyncQueue True 101 ''A'' Create (q_data entry_create)
     \<lparr>tasks = [''A'' \<mapsto> row_created], sync_queue = []\<rparr> = Inr db_created"
    by (simp add: addToSyncQueue_def insert_queue_def scenario_defs)
  from queue_id_is_task_id [where uq = False and s = db_deleted] r
    queue_id_is_task_id [where uq = True and now = 101 and i = "''A''" and op = Create
      and d = "q_data entry_create" and s = "\<lparr>tasks = [''A'' \<mapsto> row_created], sync_queue = []\<rparr>"
      and s' = db_created] e
  show ?thesis by (simp add: scenario_defs)
qed

end
